theory Spec2Isabelle
  imports Main "HOL-Library.Sublist"
begin

section \<open>Data model (src/main.c, lines 9-19)\<close>

text \<open>
  \<^verbatim>\<open>time_t\<close> values are only compared with each other and with 0 by the program, never
  added or multiplied, so they are modelled as mathematical integers.
\<close>

type_synonym time_t = int

text \<open>A \<^verbatim>\<open>char *\<close> that may be \<^verbatim>\<open>NULL\<close> is a \<open>string option\<close>.\<close>

record ProgramOptions =
  basePath :: "string option"
  beforeDate :: "string option"
  excludePattern :: "string option"
  verbose :: int

record LatestFileInfo =
  path :: "string option"
  time :: time_t

text \<open>
  The fields of \<^verbatim>\<open>struct stat\<close> that the program reads: \<^verbatim>\<open>S_ISDIR(st_mode)\<close>,
  \<^verbatim>\<open>st_ctime\<close> and \<^verbatim>\<open>st_mtime\<close>.
\<close>

record statbuf =
  st_isdir :: bool
  st_ctime :: time_t
  st_mtime :: time_t

text \<open>
  The fields of \<^verbatim>\<open>struct tm\<close> that the format of \<^verbatim>\<open>print_time\<close> reads. As in C,
  \<^verbatim>\<open>tm_year\<close> counts from 1900 and \<^verbatim>\<open>tm_mon\<close> from 0.
\<close>

record tm =
  tm_sec :: int
  tm_min :: int
  tm_hour :: int
  tm_mday :: int
  tm_mon :: int
  tm_year :: int

text \<open>
  The operating system and the C library, as far as the program calls them. They are
  parameters of the model:
  \<^item> \<open>opendir pf p\<close> is \<open>None\<close> when \<^verbatim>\<open>opendir(p)\<close> returns \<^verbatim>\<open>NULL\<close>, and otherwise the
    \<^verbatim>\<open>d_name\<close> of every entry that the successive \<^verbatim>\<open>readdir\<close> calls return, in that order
    (the entries \<^verbatim>\<open>.\<close> and \<^verbatim>\<open>..\<close> included);
  \<^item> \<open>stat pf p\<close> is \<open>None\<close> when \<^verbatim>\<open>stat(p, &statbuf)\<close> returns -1;
  \<^item> \<open>cutoff_time pf s\<close> stands for the date conversion at the head of \<^verbatim>\<open>is_after_date\<close>,
    which the source does not define (see \<open>is_after_date\<close>): a timestamp for the string
    \<open>s\<close>, or \<open>None\<close> for a failed conversion;
  \<^item> \<open>localtime pf t\<close> is the broken-down local time that \<^verbatim>\<open>localtime(&t)\<close> points to,
    \<open>None\<close> when it returns \<^verbatim>\<open>NULL\<close> (the year of \<open>t\<close> does not fit an \<^verbatim>\<open>int\<close>). The
    time zone belongs to the platform.
\<close>

record platform =
  opendir :: "string \<Rightarrow> string list option"
  stat :: "string \<Rightarrow> statbuf option"
  cutoff_time :: "string \<Rightarrow> time_t option"
  localtime :: "time_t \<Rightarrow> tm option"

text \<open>
  The mutable state of a run: the accumulator that \<^verbatim>\<open>main\<close> owns and passes by pointer,
  the two output streams, and the outcomes of the \<^verbatim>\<open>malloc\<close> calls still to come
  (\<open>True\<close> for a successful allocation; once the list is used up every allocation
  succeeds).
\<close>

record world =
  latest :: LatestFileInfo
  stdout :: string
  stderr :: string
  mallocs :: "bool list"

definition printf :: "string \<Rightarrow> world \<Rightarrow> world" where
  "printf s w = w\<lparr>stdout := stdout w @ s\<rparr>"

definition fprintf_stderr :: "string \<Rightarrow> world \<Rightarrow> world" where
  "fprintf_stderr s w = w\<lparr>stderr := stderr w @ s\<rparr>"

definition malloc :: "world \<Rightarrow> bool \<times> world" where
  "malloc w = (case mallocs w of [] \<Rightarrow> (True, w) | ok # rest \<Rightarrow> (ok, w\<lparr>mallocs := rest\<rparr>))"

section \<open>The accumulator (lines 21-34)\<close>

text \<open>Line 22: \<^verbatim>\<open>time_t new_time = ctime > mtime ? ctime : mtime;\<close>\<close>

definition effective_time :: "time_t \<Rightarrow> time_t \<Rightarrow> time_t" where
  "effective_time ctime mtime = (if ctime > mtime then ctime else mtime)"

definition update_latest_file :: "world \<Rightarrow> string \<Rightarrow> time_t \<Rightarrow> time_t \<Rightarrow> world" where
  "update_latest_file w p ctime mtime =
     (let new_time = effective_time ctime mtime in
      if path (latest w) = None \<or> new_time > time (latest w) then
        (case malloc w of
           (False, w') \<Rightarrow> fprintf_stderr ''Error: Cannot allocate memory\<newline>'' w'
         | (True, w') \<Rightarrow> w'\<lparr>latest := \<lparr>path = Some p, time = new_time\<rparr>\<rparr>)
      else w)"

section \<open>Reporting and usage (lines 36-51)\<close>

text \<open>
  \<^verbatim>\<open>strftime(buffer, 30, "%Y-%m-%d %H:%M:%S", tm_info)\<close>, after the C standard: \<^verbatim>\<open>%Y\<close> is
  the year as a decimal number, \<^verbatim>\<open>%m\<close>, \<^verbatim>\<open>%d\<close>, \<^verbatim>\<open>%H\<close>, \<^verbatim>\<open>%M\<close> and \<^verbatim>\<open>%S\<close> are the
  month (01-12), the day of the month, the hour, the minute and the second as decimal
  numbers of two digits; every other character of the format is copied. The standard
  leaves the text open when a field is outside its normal range, and the contents of the
  buffer when the text and its NUL do not fit \<open>maxsize\<close> bytes: \<open>None\<close> in both cases.
\<close>

definition digit_char :: "nat \<Rightarrow> char" where
  "digit_char n = ''0123456789'' ! (n mod 10)"

fun dec_nat :: "nat \<Rightarrow> string" where
  "dec_nat n = (if n < 10 then [digit_char n] else dec_nat (n div 10) @ [digit_char n])"

declare dec_nat.simps [simp del]

definition dec_int :: "int \<Rightarrow> string" where
  "dec_int i = (if i < 0 then CHR ''-'' # dec_nat (nat (- i)) else dec_nat (nat i))"

definition two_digits :: "int \<Rightarrow> string" where
  "two_digits i = [digit_char (nat i div 10), digit_char (nat i)]"

definition tm_in_normal_range :: "tm \<Rightarrow> bool" where
  "tm_in_normal_range t =
     (0 \<le> tm_sec t \<and> tm_sec t \<le> 60 \<and> 0 \<le> tm_min t \<and> tm_min t \<le> 59
      \<and> 0 \<le> tm_hour t \<and> tm_hour t \<le> 23 \<and> 1 \<le> tm_mday t \<and> tm_mday t \<le> 31
      \<and> 0 \<le> tm_mon t \<and> tm_mon t \<le> 11)"

definition strftime_ymd_hms :: "nat \<Rightarrow> tm \<Rightarrow> string option" where
  "strftime_ymd_hms maxsize t =
     (if tm_in_normal_range t then
        (let s = dec_int (1900 + tm_year t) @ ''-'' @ two_digits (tm_mon t + 1) @ ''-''
                   @ two_digits (tm_mday t) @ '' '' @ two_digits (tm_hour t) @ '':''
                   @ two_digits (tm_min t) @ '':'' @ two_digits (tm_sec t)
         in if length s < maxsize then Some s else None)
      else None)"

text \<open>
  \<^verbatim>\<open>print_time\<close> passes what \<^verbatim>\<open>localtime\<close> returns to \<^verbatim>\<open>strftime\<close> without a check, and
  prints the buffer without a look at what \<^verbatim>\<open>strftime\<close> returned. With \<^verbatim>\<open>NULL\<close> for the
  broken-down time, or with a buffer whose contents the library does not determine, the
  behaviour of the program is undefined: the run ends in a fault, of which nothing more
  is known.
\<close>

datatype fault = NullStructTm | UndeterminedBuffer

definition print_time :: "platform \<Rightarrow> time_t \<Rightarrow> world \<Rightarrow> fault + world" where
  "print_time pf t w =
     (case localtime pf t of
        None \<Rightarrow> Inl NullStructTm
      | Some tm_info \<Rightarrow>
          (case strftime_ymd_hms 30 tm_info of
             None \<Rightarrow> Inl UndeterminedBuffer
           | Some buffer \<Rightarrow> Inr (printf (buffer @ ''\<newline>'') w)))"

definition print_usage :: "string \<Rightarrow> world \<Rightarrow> world" where
  "print_usage programName w =
     printf ''  -h: Display this help message\<newline>''
       (printf ''  -e: Exclude files matching this pattern\<newline>''
         (printf ''  -b: Exclude files modified before this date (format YYYY-MM-DD)\<newline>''
           (printf ''  -p: Specify the path to search\<newline>''
             (printf (''Usage: '' @ programName @ '' -p <path> [-b <date>] [-e <pattern>]\<newline>'') w))))"

section \<open>Option parsing (lines 53-92)\<close>

text \<open>
  \<^verbatim>\<open>getopt(argc, argv, "hp:b:e:v")\<close> belongs to the C library. The model takes what it
  returns: the list of the option characters of its successive calls before it returns
  -1, each with the value of \<^verbatim>\<open>optarg\<close> at that call. For an option the option string
  does not list, \<^verbatim>\<open>getopt\<close> returns \<^verbatim>\<open>'?'\<close>.

  The loop returns from \<^verbatim>\<open>parse_options\<close> inside the \<^verbatim>\<open>switch\<close> (\<open>Inl\<close> the returned
  value) or runs to the end of the options (\<open>Inr\<close>).
\<close>

fun getopt_loop ::
  "string \<Rightarrow> (char \<times> string) list \<Rightarrow> ProgramOptions \<Rightarrow> world \<Rightarrow> (int + unit) \<times> ProgramOptions \<times> world"
where
  "getopt_loop argv0 [] options w = (Inr (), options, w)"
| "getopt_loop argv0 ((opt, optarg) # rest) options w =
     (if opt = CHR ''h'' \<or> opt = CHR ''?'' then (Inl 0, options, print_usage argv0 w)
      else if opt = CHR ''p'' then getopt_loop argv0 rest (options\<lparr>basePath := Some optarg\<rparr>) w
      else if opt = CHR ''b'' then getopt_loop argv0 rest (options\<lparr>beforeDate := Some optarg\<rparr>) w
      else if opt = CHR ''e'' then getopt_loop argv0 rest (options\<lparr>excludePattern := Some optarg\<rparr>) w
      else if opt = CHR ''v'' then getopt_loop argv0 rest (options\<lparr>verbose := 1\<rparr>) w
      else (Inl 1, options, print_usage argv0 (fprintf_stderr ''Error: Unknown option\<newline>'' w)))"

definition parse_options ::
  "string \<Rightarrow> (char \<times> string) list \<Rightarrow> world \<Rightarrow> int \<times> ProgramOptions \<times> world"
where
  "parse_options argv0 opts w =
     (case getopt_loop argv0 opts
             \<lparr>basePath = None, beforeDate = None, excludePattern = None, verbose = 0\<rparr> w of
        (Inl r, options, w') \<Rightarrow> (r, options, w')
      | (Inr _, options, w') \<Rightarrow>
          (if basePath options = None
           then (1, options, print_usage argv0 (fprintf_stderr ''Error: Path is required.\<newline>'' w'))
           else (2, options, w')))"

section \<open>The filters (lines 94-112)\<close>

text \<open>
  \<^verbatim>\<open>is_after_date\<close>. Lines 99 to 105 of the source are not well-typed C: \<^verbatim>\<open>strftime\<close> is
  called with three arguments, on the input string, and compared with \<^verbatim>\<open>NULL\<close>;
  \<^verbatim>\<open>mktime\<close> is given the address of the \<^verbatim>\<open>time_t\<close>; \<^verbatim>\<open>cutoff_tm\<close> is never filled in. These
  lines have no behaviour that a model could follow. What they are meant to do is in the
  source's comment, "parse cutoff_date string (YYYY-MM-DD) to struct cutoff_time", and in
  the use of \<^verbatim>\<open>mktime\<close>, which reads a broken-down time as local time. The model puts the
  parameter \<open>cutoff_time\<close> of the platform in their place, a timestamp or a failure for
  every string, and assumes nothing else about it. It follows the source in the rest of
  the function: when the conversion fails the function prints a message and returns 0;
  otherwise it returns \<^verbatim>\<open>difftime(file_time, cutoff_time) >= 0\<close>, which is decided by the
  sign of the difference of the two times. Every statement below about the outcome of the
  date filter is relative to this parameter.
\<close>

definition is_after_date :: "platform \<Rightarrow> time_t \<Rightarrow> string \<Rightarrow> world \<Rightarrow> int \<times> world" where
  "is_after_date pf file_time cutoff_date w =
     (case cutoff_time pf cutoff_date of
        None \<Rightarrow> (0, fprintf_stderr ''Error: Invalid date format\<newline>'' w)
      | Some cutoff \<Rightarrow> ((if file_time - cutoff \<ge> 0 then 1 else 0), w))"

text \<open>
  \<^verbatim>\<open>strstr(haystack, needle)\<close>: the suffix of the haystack that starts at the first
  occurrence of the needle, \<open>None\<close> for \<^verbatim>\<open>NULL\<close>.
\<close>

fun strstr :: "string \<Rightarrow> string \<Rightarrow> string option" where
  "strstr [] needle = (if needle = [] then Some [] else None)"
| "strstr (c # cs) needle = (if prefix needle (c # cs) then Some (c # cs) else strstr cs needle)"

definition is_excluded :: "string \<Rightarrow> string \<Rightarrow> int" where
  "is_excluded filename pattern = (if strstr filename pattern \<noteq> None then 1 else 0)"

section \<open>The walker (lines 114-161)\<close>

text \<open>
  Line 132: \<^verbatim>\<open>snprintf(path, sizeof(path), "%s\\%s", basePath, dp->d_name)\<close> writes at
  most \<open>bufsize - 1\<close> characters of the formatted text and a terminating NUL. The format
  holds one backslash (character 0x5C) between the two strings.
\<close>

definition snprintf_path :: "nat \<Rightarrow> string \<Rightarrow> string \<Rightarrow> string" where
  "snprintf_path bufsize dir d_name = take (bufsize - 1) (dir @ [CHR 0x5C] @ d_name)"

text \<open>
  The conditions of the two filter statements, lines 141 and 146. The first one calls
  \<^verbatim>\<open>is_after_date\<close> on \<^verbatim>\<open>statbuf.st_mtime\<close>, which may print.
\<close>

definition skip_by_date :: "platform \<Rightarrow> ProgramOptions \<Rightarrow> statbuf \<Rightarrow> world \<Rightarrow> bool \<times> world" where
  "skip_by_date pf options sb w =
     (case beforeDate options of
        None \<Rightarrow> (False, w)
      | Some d \<Rightarrow> (case is_after_date pf (st_mtime sb) d w of (r, w') \<Rightarrow> (r \<noteq> 0, w')))"

definition skip_by_pattern :: "ProgramOptions \<Rightarrow> string \<Rightarrow> bool" where
  "skip_by_pattern options d_name =
     (case excludePattern options of
        None \<Rightarrow> False
      | Some pat \<Rightarrow> is_excluded d_name pat \<noteq> 0)"

text \<open>Line 154: \<^verbatim>\<open>if(options->verbose) printf("Searching %s\\\n", path);\<close>\<close>

definition print_searching :: "ProgramOptions \<Rightarrow> string \<Rightarrow> world \<Rightarrow> world" where
  "print_searching options p w =
     (if verbose options \<noteq> 0 then printf (''Searching '' @ p @ [CHR 0x5C] @ ''\<newline>'') w else w)"

text \<open>
  \<^verbatim>\<open>recurse_dir\<close> and its \<^verbatim>\<open>while\<close> loop over the entries of the directory. The recursion
  of the source is bounded by nothing but the directory tree (a tree with a cycle, or a
  truncated path that names the directory itself, never ends), so the model counts the
  nesting depth that is left: \<open>None\<close> is a walk that does not return within it.
  The value \<^verbatim>\<open>recurse_dir\<close> returns is dropped by the recursive call on line 155.
\<close>

fun recurse_dir :: "nat \<Rightarrow> platform \<Rightarrow> ProgramOptions \<Rightarrow> string \<Rightarrow> world \<Rightarrow> (int \<times> world) option"
and readdir_loop ::
  "nat \<Rightarrow> platform \<Rightarrow> ProgramOptions \<Rightarrow> string \<Rightarrow> string list \<Rightarrow> world \<Rightarrow> world option"
where
  "recurse_dir 0 pf options dir w = None"
| "recurse_dir (Suc n) pf options dir w =
     (case opendir pf dir of
        None \<Rightarrow> Some (1, fprintf_stderr (''Error: Cannot open '' @ dir @ ''\<newline>'') w)
      | Some names \<Rightarrow>
          (case readdir_loop n pf options dir names w of
             None \<Rightarrow> None
           | Some w' \<Rightarrow> Some (0, w')))"
| "readdir_loop n pf options dir [] w = Some w"
| "readdir_loop n pf options dir (d_name # rest) w =
     (if d_name = ''.'' \<or> d_name = ''..'' then readdir_loop n pf options dir rest w
      else
        (let p = snprintf_path 1024 dir d_name in
         case stat pf p of
           None \<Rightarrow>
             readdir_loop n pf options dir rest
               (fprintf_stderr (''Error: Cannot get the file information of '' @ p @ ''\<newline>'') w)
         | Some sb \<Rightarrow>
             (case skip_by_date pf options sb w of
                (True, w1) \<Rightarrow> readdir_loop n pf options dir rest w1
              | (False, w1) \<Rightarrow>
                  if skip_by_pattern options d_name then readdir_loop n pf options dir rest w1
                  else
                    (let w2 = update_latest_file w1 p (st_ctime sb) (st_mtime sb) in
                     if st_isdir sb then
                       (case recurse_dir n pf options p (print_searching options p w2) of
                          None \<Rightarrow> None
                        | Some (r, w3) \<Rightarrow> readdir_loop n pf options dir rest w3)
                     else readdir_loop n pf options dir rest w2))))"

section \<open>The program (lines 163-187)\<close>

text \<open>
  Line 169 is \<^verbatim>\<open>return result = 0 ? 0 : 1;\<close>. In C the conditional operator binds tighter
  than the assignment, so the statement assigns \<^verbatim>\<open>0 ? 0 : 1\<close> to \<^verbatim>\<open>result\<close> and returns
  it; the constant 0 is the condition.

  \<^verbatim>\<open>parse_options\<close> returns 2 only with \<^verbatim>\<open>basePath\<close> set, so the walk always has a root.
\<close>

text \<open>Lines 175-180: the report on the accumulator after the walk.\<close>

definition report :: "platform \<Rightarrow> world \<Rightarrow> fault + world" where
  "report pf w =
     (case path (latest w) of
        Some p \<Rightarrow>
          if time (latest w) \<noteq> 0
          then print_time pf (time (latest w)) (printf (''File: '' @ p @ '' Date: '') w)
          else Inr (printf ''No file found\<newline>'' w)
      | None \<Rightarrow> Inr (printf ''No file found\<newline>'' w))"

text \<open>
  The result of \<^verbatim>\<open>main\<close>: \<open>None\<close> when the walk does not return, a fault, or the exit
  status with the final state.
\<close>

definition main ::
  "nat \<Rightarrow> platform \<Rightarrow> string \<Rightarrow> (char \<times> string) list \<Rightarrow> world
     \<Rightarrow> (fault + int \<times> world) option"
where
  "main fuel pf argv0 opts w0 =
     (case parse_options argv0 opts (w0\<lparr>latest := \<lparr>path = None, time = 0\<rparr>\<rparr>) of
        (result, options, w1) \<Rightarrow>
          if result \<noteq> 2 then Some (Inr ((if (0::int) \<noteq> 0 then 0 else 1), w1))
          else
            (case basePath options of
               None \<Rightarrow> None
             | Some root \<Rightarrow>
                 (case recurse_dir fuel pf options root w1 of
                    None \<Rightarrow> None
                  | Some (r, w2) \<Rightarrow>
                      (case report pf w2 of
                         Inl f \<Rightarrow> Some (Inl f)
                       | Inr w3 \<Rightarrow> Some (Inr (0, w3))))))"

section \<open>Notions used to state the properties\<close>

text \<open>
  A candidate offered to the accumulator: the arguments \<^verbatim>\<open>path\<close>, \<^verbatim>\<open>ctime\<close> and \<^verbatim>\<open>mtime\<close> of
  one call of \<^verbatim>\<open>update_latest_file\<close>. \<open>offer_all\<close> is a sequence of such calls on the
  same accumulator. The effective time of a candidate is the one of the specification,
  section 3: the maximum of its metadata-change time and its content-modification time.
\<close>

type_synonym candidate = "string \<times> time_t \<times> time_t"

definition candidate_time :: "candidate \<Rightarrow> time_t" where
  "candidate_time c = max (fst (snd c)) (snd (snd c))"

fun offer_all :: "world \<Rightarrow> candidate list \<Rightarrow> world" where
  "offer_all w [] = w"
| "offer_all w (c # cs) = offer_all (update_latest_file w (fst c) (fst (snd c)) (snd (snd c))) cs"

text \<open>
  The join of the specification, section 4.1 step 3: the parent path, the path separator
  of the platform, the entry name. It is compared with \<open>snprintf_path\<close>, the join of the
  source.
\<close>

definition spec_join_path :: "char \<Rightarrow> string \<Rightarrow> string \<Rightarrow> string" where
  "spec_join_path separator parent name = parent @ [separator] @ name"

section \<open>Example runs\<close>

text \<open>The state \<^verbatim>\<open>main\<close> starts from: nothing printed, every allocation succeeds.\<close>

definition w_init :: world where
  "w_init = \<lparr>latest = \<lparr>path = None, time = 0\<rparr>, stdout = [], stderr = [], mallocs = []\<rparr>"

text \<open>
  The local time of the examples is UTC. \<^verbatim>\<open>localtime\<close> is given for the times that occur
  in them; for 2 to the power 62, a time whose year does not fit an \<^verbatim>\<open>int\<close>, it returns
  \<^verbatim>\<open>NULL\<close>, as it does for the times that do not occur.
\<close>

definition utc_table :: "time_t \<Rightarrow> tm option" where
  "utc_table t =
     (if t = 0 then
        Some \<lparr>tm_sec = 0, tm_min = 0, tm_hour = 0, tm_mday = 1, tm_mon = 0, tm_year = 70\<rparr>
      else if t = 1704067200 then
        Some \<lparr>tm_sec = 0, tm_min = 0, tm_hour = 0, tm_mday = 1, tm_mon = 0, tm_year = 124\<rparr>
      else if t = 1714521600 then
        Some \<lparr>tm_sec = 0, tm_min = 0, tm_hour = 0, tm_mday = 1, tm_mon = 4, tm_year = 124\<rparr>
      else if t = 1717200000 then
        Some \<lparr>tm_sec = 0, tm_min = 0, tm_hour = 0, tm_mday = 1, tm_mon = 5, tm_year = 124\<rparr>
      else if t = 1719847845 then
        Some \<lparr>tm_sec = 45, tm_min = 30, tm_hour = 15, tm_mday = 1, tm_mon = 6, tm_year = 124\<rparr>
      else None)"

text \<open>
  The tree of the specification's scenarios: the root \<^verbatim>\<open>r\<close> holds the file \<^verbatim>\<open>a.txt\<close>
  (changed and modified 2024-01-01, 1704067200 seconds after the epoch) and the directory
  \<^verbatim>\<open>b\<close> (2024-05-01, 1714521600), which holds \<^verbatim>\<open>c.txt\<close> (2024-06-01, 1717200000). Paths
  are written with the backslash the program puts between their parts. The only cutoff
  string in use is \<^verbatim>\<open>2024-03-01\<close> (1709251200).
\<close>

definition tree_pf :: platform where
  "tree_pf =
     \<lparr>opendir = (\<lambda>p.
        if p = ''r'' then Some [''.'', ''..'', ''a.txt'', ''b'']
        else if p = ''r'' @ [CHR 0x5C] @ ''b'' then Some [''.'', ''..'', ''c.txt'']
        else None),
      stat = (\<lambda>p.
        if p = ''r'' @ [CHR 0x5C] @ ''a.txt''
          then Some \<lparr>st_isdir = False, st_ctime = 1704067200, st_mtime = 1704067200\<rparr>
        else if p = ''r'' @ [CHR 0x5C] @ ''b''
          then Some \<lparr>st_isdir = True, st_ctime = 1714521600, st_mtime = 1714521600\<rparr>
        else if p = ''r'' @ [CHR 0x5C] @ ''b'' @ [CHR 0x5C] @ ''c.txt''
          then Some \<lparr>st_isdir = False, st_ctime = 1717200000, st_mtime = 1717200000\<rparr>
        else None),
      cutoff_time = (\<lambda>s. if s = ''2024-03-01'' then Some 1709251200 else None),
      localtime = utc_table\<rparr>"

definition opts_plain :: ProgramOptions where
  "opts_plain = \<lparr>basePath = Some ''r'', beforeDate = None, excludePattern = None, verbose = 1\<rparr>"

text \<open>
  The same root where \<^verbatim>\<open>b\<close> cannot be opened (no read permission), and a second file
  \<^verbatim>\<open>z.txt\<close> comes after it.
\<close>

definition locked_pf :: platform where
  "locked_pf =
     \<lparr>opendir = (\<lambda>p. if p = ''r'' then Some [''.'', ''..'', ''b'', ''z.txt''] else None),
      stat = (\<lambda>p.
        if p = ''r'' @ [CHR 0x5C] @ ''b''
          then Some \<lparr>st_isdir = True, st_ctime = 1714521600, st_mtime = 1714521600\<rparr>
        else if p = ''r'' @ [CHR 0x5C] @ ''z.txt''
          then Some \<lparr>st_isdir = False, st_ctime = 1717200000, st_mtime = 1717200000\<rparr>
        else None),
      cutoff_time = (\<lambda>s. None),
      localtime = utc_table\<rparr>"


text \<open>
  A root with the single file \<^verbatim>\<open>g\<close>, changed and modified at 2 to the power 62 seconds
  after the epoch.
\<close>

definition far_pf :: platform where
  "far_pf =
     \<lparr>opendir = (\<lambda>p. if p = ''r'' then Some [''.'', ''..'', ''g''] else None),
      stat = (\<lambda>p.
        if p = ''r'' @ [CHR 0x5C] @ ''g''
          then Some \<lparr>st_isdir = False, st_ctime = 4611686018427387904,
                      st_mtime = 4611686018427387904\<rparr>
        else None),
      cutoff_time = (\<lambda>s. None),
      localtime = utc_table\<rparr>"

text \<open>
  A directory whose path is 1020 characters long, with the entry \<^verbatim>\<open>abcdef\<close>. The file
  system knows one file under a path of 1023 characters: the name the program asks for.
\<close>

definition deep_dir :: string where
  "deep_dir = replicate 1020 (CHR ''x'')"

definition deep_pf :: platform where
  "deep_pf =
     \<lparr>opendir = (\<lambda>p. if p = deep_dir then Some [''abcdef''] else None),
      stat = (\<lambda>p.
        if p = deep_dir @ [CHR 0x5C] @ ''ab''
          then Some \<lparr>st_isdir = False, st_ctime = 1717200000, st_mtime = 1717200000\<rparr>
        else None),
      cutoff_time = (\<lambda>s. None),
      localtime = utc_table\<rparr>"

section \<open>Properties of the accumulator\<close>

lemma effective_time_max: "effective_time ctime mtime = max ctime mtime"
  by (simp add: effective_time_def max_def)

lemma candidate_time_effective:
  "candidate_time c = effective_time (fst (snd c)) (snd (snd c))"
  by (simp add: candidate_time_def effective_time_max)

lemma update_latest_file_replace:
  "list_all id (mallocs w) \<Longrightarrow> path (latest w) = None \<or> effective_time c m > time (latest w) \<Longrightarrow>
   latest (update_latest_file w p c m) = \<lparr>path = Some p, time = effective_time c m\<rparr>
   \<and> list_all id (mallocs (update_latest_file w p c m))"
  by (cases "mallocs w") (auto simp: update_latest_file_def malloc_def Let_def)

lemma update_latest_file_keep:
  "path (latest w) \<noteq> None \<Longrightarrow> effective_time c m \<le> time (latest w) \<Longrightarrow>
   update_latest_file w p c m = w"
  by (auto simp: update_latest_file_def Let_def)

lemma update_latest_file_no_memory:
  "mallocs w = False # bs \<Longrightarrow> path (latest w) = None \<or> effective_time c m > time (latest w) \<Longrightarrow>
   update_latest_file w p c m =
     fprintf_stderr ''Error: Cannot allocate memory\<newline>'' (w\<lparr>mallocs := bs\<rparr>)"
  by (auto simp: update_latest_file_def malloc_def Let_def)

lemma update_latest_file_no_memory_latest:
  "mallocs w = False # bs \<Longrightarrow> latest (update_latest_file w p c m) = latest w"
  by (auto simp: update_latest_file_def malloc_def Let_def fprintf_stderr_def)

lemma Max_insert_eq_iff:
  fixes t :: int
  shows "finite S \<Longrightarrow> (Max (insert t S) = t) = (\<forall>x\<in>S. x \<le> t)"
  by (metis finite_insert Max_insert2 Max.coboundedI insertCI)

lemma Max_drop_small:
  fixes t0 :: int
  assumes "finite S" and "t0 \<le> tc"
  shows "Max (insert t0 (insert tc S)) = Max (insert tc S)"
proof -
  have eq: "Max (insert t0 (insert tc S)) = max t0 (Max (insert tc S))"
    by (rule Max_insert) (use assms in auto)
  have "tc \<le> Max (insert tc S)"
    by (rule Max_ge) (use assms in auto)
  with assms(2) have le: "t0 \<le> Max (insert tc S)"
    by (rule order_trans)
  show ?thesis unfolding eq using le by (rule max_absorb2)
qed

lemma offer_all_time:
  "list_all id (mallocs w) \<Longrightarrow> path (latest w) \<noteq> None \<Longrightarrow>
   time (latest (offer_all w cs)) = Max (insert (time (latest w)) (candidate_time ` set cs))"
proof (induction cs arbitrary: w)
  case Nil
  then show ?case by simp
next
  case (Cons c cs)
  let ?w' = "update_latest_file w (fst c) (fst (snd c)) (snd (snd c))"
  show ?case
  proof (cases "candidate_time c > time (latest w)")
    case True
    then have upd: "latest ?w' = \<lparr>path = Some (fst c), time = candidate_time c\<rparr>"
      and ok: "list_all id (mallocs ?w')"
      using update_latest_file_replace[of w "fst (snd c)" "snd (snd c)" "fst c"] Cons.prems
      by (simp_all add: candidate_time_effective)
    have "time (latest (offer_all ?w' cs)) = Max (insert (candidate_time c) (candidate_time ` set cs))"
      using Cons.IH[OF ok] upd by simp
    moreover have "Max (insert (time (latest w)) (candidate_time ` set (c # cs)))
        = Max (insert (candidate_time c) (candidate_time ` set cs))"
      using True Max_drop_small[of "candidate_time ` set cs" "time (latest w)" "candidate_time c"] by simp
    ultimately show ?thesis by simp
  next
    case False
    then have same: "?w' = w"
      using update_latest_file_keep[of w "fst (snd c)" "snd (snd c)" "fst c"] Cons.prems
      by (simp add: candidate_time_effective)
    have "Max (insert (time (latest w)) (candidate_time ` set (c # cs)))
        = Max (insert (time (latest w)) (candidate_time ` set cs))"
      using False Max_drop_small[of "candidate_time ` set cs" "candidate_time c" "time (latest w)"]
      by (simp add: insert_commute)
    then show ?thesis using Cons.IH[OF Cons.prems] same by simp
  qed
qed


lemma offer_all_path:
  "list_all id (mallocs w) \<Longrightarrow> path (latest w) \<noteq> None \<Longrightarrow>
   path (latest (offer_all w cs)) =
     (if list_all (\<lambda>c. candidate_time c \<le> time (latest w)) cs then path (latest w)
      else map_option fst (find (\<lambda>c. candidate_time c = time (latest (offer_all w cs))) cs))"
proof (induction cs arbitrary: w)
  case Nil
  then show ?case by simp
next
  case (Cons c cs)
  let ?w' = "update_latest_file w (fst c) (fst (snd c)) (snd (snd c))"
  let ?T = "time (latest (offer_all ?w' cs))"
  show ?case
  proof (cases "candidate_time c > time (latest w)")
    case True
    then have upd: "latest ?w' = \<lparr>path = Some (fst c), time = candidate_time c\<rparr>"
      and ok: "list_all id (mallocs ?w')"
      using update_latest_file_replace[of w "fst (snd c)" "snd (snd c)" "fst c"] Cons.prems
      by (simp_all add: candidate_time_effective)
    have T: "?T = Max (insert (candidate_time c) (candidate_time ` set cs))"
      using offer_all_time[OF ok, of cs] upd by simp
    have iff: "(?T = candidate_time c) = list_all (\<lambda>d. candidate_time d \<le> candidate_time c) cs"
      unfolding T by (simp add: Max_insert_eq_iff list_all_iff)
    have ih: "path (latest (offer_all ?w' cs)) =
        (if list_all (\<lambda>d. candidate_time d \<le> candidate_time c) cs then Some (fst c)
         else map_option fst (find (\<lambda>d. candidate_time d = ?T) cs))"
      using Cons.IH[OF ok] upd by simp
    show ?thesis
    proof (cases "list_all (\<lambda>d. candidate_time d \<le> candidate_time c) cs")
      case all: True
      with iff have "?T = candidate_time c" by simp
      then show ?thesis using ih all True by simp
    next
      case notall: False
      with iff have "candidate_time c \<noteq> ?T" by auto
      then show ?thesis using ih notall True by simp
    qed
  next
    case False
    then have same: "?w' = w"
      using update_latest_file_keep[of w "fst (snd c)" "snd (snd c)" "fst c"] Cons.prems
      by (simp add: candidate_time_effective)
    have T: "time (latest (offer_all w cs)) = Max (insert (time (latest w)) (candidate_time ` set cs))"
      using offer_all_time[OF Cons.prems, of cs] .
    have iff: "(time (latest (offer_all w cs)) = time (latest w))
         = list_all (\<lambda>d. candidate_time d \<le> time (latest w)) cs"
      unfolding T by (simp add: Max_insert_eq_iff list_all_iff)
    show ?thesis
    proof (cases "list_all (\<lambda>d. candidate_time d \<le> time (latest w)) cs")
      case all: True
      then show ?thesis using Cons.IH[OF Cons.prems] same False by simp
    next
      case notall: False
      with iff have ne: "time (latest (offer_all w cs)) \<noteq> time (latest w)" by simp
      have "time (latest w) \<le> time (latest (offer_all w cs))"
        unfolding T by (rule Max_ge) auto
      with ne False have "candidate_time c \<noteq> time (latest (offer_all w cs))" by linarith
      then show ?thesis using Cons.IH[OF Cons.prems] same notall by simp
    qed
  qed
qed

section \<open>Steps of the walker\<close>

lemma readdir_loop_candidate:
  assumes "d \<noteq> ''.''" and "d \<noteq> ''..''"
    and "stat pf (snprintf_path 1024 dir d) = Some sb"
    and "skip_by_date pf options sb w = (False, w1)"
    and "\<not> skip_by_pattern options d"
  shows "readdir_loop n pf options dir (d # rest) w =
     (if st_isdir sb then
        (case recurse_dir n pf options (snprintf_path 1024 dir d)
                (print_searching options (snprintf_path 1024 dir d)
                   (update_latest_file w1 (snprintf_path 1024 dir d) (st_ctime sb) (st_mtime sb))) of
           None \<Rightarrow> None
         | Some (r, w3) \<Rightarrow> readdir_loop n pf options dir rest w3)
      else readdir_loop n pf options dir rest
             (update_latest_file w1 (snprintf_path 1024 dir d) (st_ctime sb) (st_mtime sb)))"
  using assms by (simp add: Let_def)

lemma readdir_loop_filtered:
  assumes "d \<noteq> ''.''" and "d \<noteq> ''..''"
    and "stat pf (snprintf_path 1024 dir d) = Some sb"
    and "skip_by_date pf options sb w = (skipped, w1)"
    and "skipped \<or> skip_by_pattern options d"
  shows "readdir_loop n pf options dir (d # rest) w = readdir_loop n pf options dir rest w1"
  using assms by (cases skipped) (simp_all add: Let_def)

lemma recurse_dir_cannot_open:
  "opendir pf p = None \<Longrightarrow>
   recurse_dir (Suc n) pf options p w =
     Some (1, fprintf_stderr (''Error: Cannot open '' @ p @ ''\<newline>'') w)"
  by simp

lemma getopt_loop_returns:
  "getopt_loop argv0 opts options w = (Inl r, options', w') \<Longrightarrow> r = 0 \<or> r = 1"
  by (induction argv0 opts options w rule: getopt_loop.induct) (auto split: if_splits)

lemma parse_options_root:
  "parse_options argv0 opts w = (2, options, w1) \<Longrightarrow> basePath options \<noteq> None"
  by (auto simp: parse_options_def split: prod.splits sum.splits if_splits
      dest: getopt_loop_returns)


lemma report_stderr:
  "report pf (fprintf_stderr s w) =
     (case report pf w of Inl f \<Rightarrow> Inl f | Inr w3 \<Rightarrow> Inr (fprintf_stderr s w3))"
  by (auto simp: report_def print_time_def printf_def fprintf_stderr_def split: option.splits)

lemma main_after_walk:
  assumes "parse_options argv0 opts (w0\<lparr>latest := \<lparr>path = None, time = 0\<rparr>\<rparr>) = (2, options, w1)"
    and "basePath options = Some root"
    and "recurse_dir fuel pf options root w1 = Some (r, w2)"
  shows "main fuel pf argv0 opts w0 =
     Some (case report pf w2 of Inl f \<Rightarrow> Inl f | Inr w3 \<Rightarrow> Inr (0, w3))"
  using assms by (auto simp: main_def split: sum.splits)

section \<open>The text of the time\<close>

lemma dec_nat_four_digits:
  assumes "1000 \<le> n" and "n \<le> 9999"
  shows "dec_nat n =
     [digit_char (n div 1000), digit_char (n div 100), digit_char (n div 10), digit_char n]"
proof -
  have "dec_nat n = dec_nat (n div 10) @ [digit_char n]"
    using assms by (simp add: dec_nat.simps[of n])
  also have "dec_nat (n div 10) = dec_nat (n div 10 div 10) @ [digit_char (n div 10)]"
    using assms by (simp add: dec_nat.simps[of "n div 10"])
  also have "dec_nat (n div 10 div 10) =
      dec_nat (n div 10 div 10 div 10) @ [digit_char (n div 10 div 10)]"
    using assms by (simp add: dec_nat.simps[of "n div 10 div 10"])
  also have "dec_nat (n div 10 div 10 div 10) = [digit_char (n div 10 div 10 div 10)]"
    using assms by (simp add: dec_nat.simps[of "n div 10 div 10 div 10"])
  finally show ?thesis
    by (simp add: div_mult2_eq[symmetric])
qed

lemma strftime_ymd_hms_shape:
  assumes "tm_in_normal_range t" and "1000 \<le> 1900 + tm_year t" and "1900 + tm_year t \<le> 9999"
  shows "strftime_ymd_hms 30 t =
     Some ([digit_char (nat (1900 + tm_year t) div 1000), digit_char (nat (1900 + tm_year t) div 100),
            digit_char (nat (1900 + tm_year t) div 10), digit_char (nat (1900 + tm_year t)),
            CHR ''-'', digit_char (nat (tm_mon t + 1) div 10), digit_char (nat (tm_mon t + 1)),
            CHR ''-'', digit_char (nat (tm_mday t) div 10), digit_char (nat (tm_mday t)),
            CHR '' '', digit_char (nat (tm_hour t) div 10), digit_char (nat (tm_hour t)),
            CHR '':'', digit_char (nat (tm_min t) div 10), digit_char (nat (tm_min t)),
            CHR '':'', digit_char (nat (tm_sec t) div 10), digit_char (nat (tm_sec t))])"
proof -
  have "dec_int (1900 + tm_year t) =
      [digit_char (nat (1900 + tm_year t) div 1000), digit_char (nat (1900 + tm_year t) div 100),
       digit_char (nat (1900 + tm_year t) div 10), digit_char (nat (1900 + tm_year t))]"
    using assms(2,3) dec_nat_four_digits[of "nat (1900 + tm_year t)"]
    by (simp add: dec_int_def)
  then show ?thesis
    using assms(1) by (simp add: strftime_ymd_hms_def two_digits_def Let_def)
qed

section \<open>The times of the examples\<close>

lemma strftime_example_june:
  "strftime_ymd_hms 30 \<lparr>tm_sec = 0, tm_min = 0, tm_hour = 0, tm_mday = 1, tm_mon = 5, tm_year = 124\<rparr>
     = Some ''2024-06-01 00:00:00''"
  by (simp add: strftime_ymd_hms_shape tm_in_normal_range_def digit_char_def)

lemma strftime_example_july:
  "strftime_ymd_hms 30 \<lparr>tm_sec = 45, tm_min = 30, tm_hour = 15, tm_mday = 1, tm_mon = 6, tm_year = 124\<rparr>
     = Some ''2024-07-01 15:30:45''"
  by (simp add: strftime_ymd_hms_shape tm_in_normal_range_def digit_char_def)

lemma print_time_june:
  "localtime pf = utc_table \<Longrightarrow>
   print_time pf 1717200000 w = Inr (printf ''2024-06-01 00:00:00\<newline>'' w)"
  by (simp add: print_time_def utc_table_def strftime_example_june)

lemma print_time_far:
  "localtime pf = utc_table \<Longrightarrow> print_time pf 4611686018427387904 w = Inl NullStructTm"
  by (simp add: print_time_def utc_table_def)

lemma parse_options_path_only:
  "parse_options argv0 [(CHR ''p'', root)] w =
     (2, \<lparr>basePath = Some root, beforeDate = None, excludePattern = None, verbose = 0\<rparr>, w)"
  by (simp add: parse_options_def)


section \<open>The depth bound\<close>

text \<open>
  A walk that returns within some depth returns the same result within every greater
  depth: the bound decides only whether the model sees the walk return.
\<close>

lemma fuel_Suc:
  "(recurse_dir n pf options dir w = Some x \<longrightarrow> recurse_dir (Suc n) pf options dir w = Some x)"
  "(readdir_loop n pf options dir names w = Some y \<longrightarrow> readdir_loop (Suc n) pf options dir names w = Some y)"
proof (induction n pf options dir w and n pf options dir names w arbitrary: x and y
    rule: recurse_dir_readdir_loop.induct)
  case (1 pf options dir w)
  then show ?case by simp
next
  case (2 n pf options dir w)
  show ?case
  proof
    assume a: "recurse_dir (Suc n) pf options dir w = Some x"
    show "recurse_dir (Suc (Suc n)) pf options dir w = Some x"
    proof (cases "opendir pf dir")
      case None
      then show ?thesis using a by simp
    next
      case (Some names)
      with a obtain w' where l: "readdir_loop n pf options dir names w = Some w'" and x: "x = (0, w')"
        by (auto split: option.splits)
      from 2[OF Some] l have "readdir_loop (Suc n) pf options dir names w = Some w'"
        by blast
      then show ?thesis using Some x
        by (simp del: readdir_loop.simps)
    qed
  qed
next
  case (3 n pf options dir w)
  then show ?case by simp
next
  case (4 n pf options dir d_name rest w)
  show ?case
  proof
    assume a: "readdir_loop n pf options dir (d_name # rest) w = Some y"
    show "readdir_loop (Suc n) pf options dir (d_name # rest) w = Some y"
    proof (cases "d_name = ''.'' \<or> d_name = ''..''")
      case True
      then show ?thesis using a "4.IH"(1) by simp
    next
      case dots: False
      let ?p = "snprintf_path 1024 dir d_name"
      show ?thesis
      proof (cases "stat pf ?p")
        case None
        then show ?thesis using a dots "4.IH"(2)[OF dots refl None] by simp
      next
        case (Some sb)
        obtain skipped w1 where sk: "skip_by_date pf options sb w = (skipped, w1)"
          by (cases "skip_by_date pf options sb w")
        let ?w2 = "update_latest_file w1 ?p (st_ctime sb) (st_mtime sb)"
        show ?thesis
        proof (cases "skipped \<or> skip_by_pattern options d_name")
          case True
          then have "readdir_loop n pf options dir rest w1 = Some y"
            using a dots Some sk by (cases skipped) (simp_all add: Let_def)
          moreover have "readdir_loop n pf options dir rest w1 = Some y \<longrightarrow>
              readdir_loop (Suc n) pf options dir rest w1 = Some y"
            using True "4.IH"(3)[OF dots refl Some sk[symmetric]]
              "4.IH"(4)[OF dots refl Some sk[symmetric]]
            by (cases skipped) auto
          ultimately show ?thesis
            using True dots Some sk by (cases skipped) (simp_all add: Let_def)
        next
          case False
          then have ns: "skipped = False" and np: "\<not> skip_by_pattern options d_name"
            by simp_all
          show ?thesis
          proof (cases "st_isdir sb")
            case True
            from a obtain r w3 where
              rd: "recurse_dir n pf options ?p (print_searching options ?p ?w2) = Some (r, w3)"
              and lp: "readdir_loop n pf options dir rest w3 = Some y"
              using dots Some sk ns np True
              by (auto simp: Let_def split: option.splits)
            have "recurse_dir (Suc n) pf options ?p (print_searching options ?p ?w2) = Some (r, w3)"
              using "4.IH"(5)[OF dots refl Some sk[symmetric] ns np refl True] rd by blast
            moreover have "readdir_loop (Suc n) pf options dir rest w3 = Some y"
              using "4.IH"(6)[OF dots refl Some sk[symmetric] ns np refl True rd refl] lp by blast
            ultimately show ?thesis
              using dots Some sk ns np True
              by (simp add: Let_def del: recurse_dir.simps)
          next
            case False
            then have "readdir_loop n pf options dir rest ?w2 = Some y"
              using a dots Some sk ns np by (simp add: Let_def)
            then have "readdir_loop (Suc n) pf options dir rest ?w2 = Some y"
              using "4.IH"(7)[OF dots refl Some sk[symmetric] ns np refl False] by blast
            then show ?thesis
              using dots Some sk ns np False by (simp add: Let_def)
          qed
        qed
      qed
    qed
  qed
qed

lemma recurse_dir_more_fuel:
  "recurse_dir n pf options dir w = Some x \<Longrightarrow> n \<le> m \<Longrightarrow>
   recurse_dir m pf options dir w = Some x"
  by (induction m) (auto simp: le_Suc_eq fuel_Suc(1) simp del: recurse_dir.simps)

section \<open>Claim C3: the accumulator keeps the first maximum\<close>

text \<open>
  C3, as stated, fails when an allocation fails: \<^verbatim>\<open>update_latest_file\<close> checks what
  \<^verbatim>\<open>malloc\<close> returns and passes the candidate over when it is \<^verbatim>\<open>NULL\<close>. Offered to the
  empty accumulator with the first allocation failing, the single candidate \<^verbatim>\<open>a\<close> with
  the times 5 and 5 leaves the accumulator empty, with the time 0, while the maximum
  effective time of the offered candidates is 5.
\<close>

theorem accumulator_counterexample:
  "time (latest (offer_all (w_init\<lparr>mallocs := [False]\<rparr>) [(''a'', 5, 5)])) = 0
   \<and> path (latest (offer_all (w_init\<lparr>mallocs := [False]\<rparr>) [(''a'', 5, 5)])) = None
   \<and> Max (candidate_time ` set [(''a'', 5, 5)]) = 5"
  by (simp add: w_init_def update_latest_file_def malloc_def effective_time_def
      fprintf_stderr_def candidate_time_def)

text \<open>
  C3, amended. Offered one after the other to the empty accumulator (no path yet), with
  every allocation succeeding, a non-empty sequence of candidates leaves the accumulator
  with the maximum of their effective times, the effective time of a candidate being the
  maximum of its change time and its modification time, and with the path of the first
  candidate that has this time. Offering a candidate whose effective time is at most the
  time of the current best changes nothing, whatever the allocations do.
\<close>

theorem accumulator_keeps_first_maximum:
  assumes "list_all id (mallocs w)" and "path (latest w) = None" and "cs \<noteq> []"
  shows "time (latest (offer_all w cs)) = Max (candidate_time ` set cs)
     \<and> path (latest (offer_all w cs)) =
         map_option fst (find (\<lambda>c. candidate_time c = Max (candidate_time ` set cs)) cs)
     \<and> (path (latest w') \<noteq> None \<longrightarrow> max ctime mtime \<le> time (latest w') \<longrightarrow>
          update_latest_file w' p ctime mtime = w')"
proof -
  from assms(3) obtain c cs' where cs: "cs = c # cs'"
    by (cases cs) auto
  let ?w1 = "update_latest_file w (fst c) (fst (snd c)) (snd (snd c))"
  let ?T = "time (latest (offer_all ?w1 cs'))"
  have upd: "latest ?w1 = \<lparr>path = Some (fst c), time = candidate_time c\<rparr>"
    and ok: "list_all id (mallocs ?w1)"
    using update_latest_file_replace[of w "fst (snd c)" "snd (snd c)" "fst c"] assms(1,2)
    by (simp_all add: candidate_time_effective)
  have some: "path (latest ?w1) \<noteq> None"
    using upd by simp
  have T: "?T = Max (candidate_time ` set cs)"
    using offer_all_time[OF ok some, of cs'] upd by (simp add: cs)
  have iff: "(?T = candidate_time c) = list_all (\<lambda>d. candidate_time d \<le> candidate_time c) cs'"
    using offer_all_time[OF ok some, of cs'] upd by (simp add: Max_insert_eq_iff list_all_iff)
  have "path (latest (offer_all ?w1 cs')) =
      (if list_all (\<lambda>d. candidate_time d \<le> candidate_time c) cs' then Some (fst c)
       else map_option fst (find (\<lambda>d. candidate_time d = ?T) cs'))"
    using offer_all_path[OF ok some, of cs'] upd by simp
  then have "path (latest (offer_all ?w1 cs')) =
      map_option fst (find (\<lambda>d. candidate_time d = ?T) (c # cs'))"
    using iff by (cases "?T = candidate_time c") auto
  then have P: "path (latest (offer_all w cs)) =
      map_option fst (find (\<lambda>c. candidate_time c = Max (candidate_time ` set cs)) cs)"
    using T by (simp add: cs)
  have K: "path (latest w') \<noteq> None \<longrightarrow> max ctime mtime \<le> time (latest w') \<longrightarrow>
      update_latest_file w' p ctime mtime = w'"
    using update_latest_file_keep[of w' ctime mtime p] unfolding effective_time_max by blast
  from T P K show ?thesis by (simp add: cs)
qed

theorem accumulator_keeps_first_maximum_witness:
  "list_all id (mallocs w_init) \<and> path (latest w_init) = None
   \<and> time (latest (offer_all w_init [(''a'', 1, 5), (''b'', 2, 7), (''c'', 7, 7), (''d'', 3, 3)])) = 7
   \<and> path (latest (offer_all w_init [(''a'', 1, 5), (''b'', 2, 7), (''c'', 7, 7), (''d'', 3, 3)])) = Some ''b''
   \<and> update_latest_file
        (offer_all w_init [(''a'', 1, 5), (''b'', 2, 7), (''c'', 7, 7), (''d'', 3, 3)]) ''e'' 7 6
      = offer_all w_init [(''a'', 1, 5), (''b'', 2, 7), (''c'', 7, 7), (''d'', 3, 3)]"
proof -
  let ?cs = "[(''a'', 1, 5), (''b'', 2, 7), (''c'', 7, 7), (''d'', 3, 3)] :: candidate list"
  have h1: "list_all id (mallocs w_init)" and h2: "path (latest w_init) = None"
    by (simp_all add: w_init_def)
  have h3: "?cs \<noteq> []" by simp
  have now: "path (latest (offer_all w_init ?cs)) \<noteq> None"
    and le: "max 7 6 \<le> time (latest (offer_all w_init ?cs))"
    by (simp_all add: w_init_def update_latest_file_def malloc_def effective_time_def)
  show ?thesis
    using h1 h2 now le
      accumulator_keeps_first_maximum [OF h1 h2 h3, of "offer_all w_init ?cs" 7 6 "''e''"]
    by (simp add: candidate_time_def effective_time_def)
qed

section \<open>Claims C8 and C7: failures that do not stop the walk\<close>

text \<open>
  C8. When the allocation of the copy of the new path fails, \<^verbatim>\<open>update_latest_file\<close> leaves
  the accumulator as it was: the stored path and time are those of before the call. If a
  replacement was due, the only effects are the message on the error stream and the used
  allocation. The walk goes on: after such an entry the loop handles the remaining entries
  of the directory (and enters the entry first, when it is a directory), from the state
  with the unchanged accumulator.
\<close>

theorem allocation_failure_keeps_previous_best:
  assumes "mallocs w1 = False # bs"
  shows "latest (update_latest_file w1 p ctime mtime) = latest w1
     \<and> (path (latest w1) = None \<or> effective_time ctime mtime > time (latest w1) \<longrightarrow>
          update_latest_file w1 p ctime mtime =
            fprintf_stderr ''Error: Cannot allocate memory\<newline>'' (w1\<lparr>mallocs := bs\<rparr>))
     \<and> (d \<noteq> ''.'' \<and> d \<noteq> ''..'' \<and> stat pf (snprintf_path 1024 dir d) = Some sb
          \<and> skip_by_date pf options sb w = (False, w1) \<and> \<not> skip_by_pattern options d
          \<and> (path (latest w1) = None \<or> effective_time (st_ctime sb) (st_mtime sb) > time (latest w1)) \<longrightarrow>
          readdir_loop n pf options dir (d # rest) w =
            (if st_isdir sb then
               (case recurse_dir n pf options (snprintf_path 1024 dir d)
                       (print_searching options (snprintf_path 1024 dir d)
                          (fprintf_stderr ''Error: Cannot allocate memory\<newline>'' (w1\<lparr>mallocs := bs\<rparr>))) of
                  None \<Rightarrow> None
                | Some (r, w3) \<Rightarrow> readdir_loop n pf options dir rest w3)
             else readdir_loop n pf options dir rest
                    (fprintf_stderr ''Error: Cannot allocate memory\<newline>'' (w1\<lparr>mallocs := bs\<rparr>))))"
proof (intro conjI impI)
  show "latest (update_latest_file w1 p ctime mtime) = latest w1"
    using assms by (rule update_latest_file_no_memory_latest)
next
  assume "path (latest w1) = None \<or> effective_time ctime mtime > time (latest w1)"
  with assms show "update_latest_file w1 p ctime mtime =
      fprintf_stderr ''Error: Cannot allocate memory\<newline>'' (w1\<lparr>mallocs := bs\<rparr>)"
    by (rule update_latest_file_no_memory)
next
  assume a: "d \<noteq> ''.'' \<and> d \<noteq> ''..'' \<and> stat pf (snprintf_path 1024 dir d) = Some sb
          \<and> skip_by_date pf options sb w = (False, w1) \<and> \<not> skip_by_pattern options d
          \<and> (path (latest w1) = None \<or> effective_time (st_ctime sb) (st_mtime sb) > time (latest w1))"
  then have u: "update_latest_file w1 (snprintf_path 1024 dir d) (st_ctime sb) (st_mtime sb) =
      fprintf_stderr ''Error: Cannot allocate memory\<newline>'' (w1\<lparr>mallocs := bs\<rparr>)"
    using assms update_latest_file_no_memory by blast
  show "readdir_loop n pf options dir (d # rest) w =
            (if st_isdir sb then
               (case recurse_dir n pf options (snprintf_path 1024 dir d)
                       (print_searching options (snprintf_path 1024 dir d)
                          (fprintf_stderr ''Error: Cannot allocate memory\<newline>'' (w1\<lparr>mallocs := bs\<rparr>))) of
                  None \<Rightarrow> None
                | Some (r, w3) \<Rightarrow> readdir_loop n pf options dir rest w3)
             else readdir_loop n pf options dir rest
                    (fprintf_stderr ''Error: Cannot allocate memory\<newline>'' (w1\<lparr>mallocs := bs\<rparr>)))"
    using a readdir_loop_candidate[of d pf dir sb options w w1 n rest] unfolding u by blast
qed

text \<open>
  The run on the example tree where the first allocation fails: \<^verbatim>\<open>a.txt\<close> is not
  recorded, the message is printed, and the walk still finds \<^verbatim>\<open>c.txt\<close>.
\<close>

theorem allocation_failure_keeps_previous_best_witness:
  "mallocs (w_init\<lparr>mallocs := [False]\<rparr>) = False # []
   \<and> latest (update_latest_file (w_init\<lparr>mallocs := [False]\<rparr>) ''x'' 5 5) = \<lparr>path = None, time = 0\<rparr>
   \<and> recurse_dir 2 tree_pf (opts_plain\<lparr>verbose := 0\<rparr>) ''r'' (w_init\<lparr>mallocs := [False]\<rparr>) =
       Some (0, w_init\<lparr>latest := \<lparr>path = Some (''r'' @ [CHR 0x5C] @ ''b'' @ [CHR 0x5C] @ ''c.txt''),
                                   time = 1717200000\<rparr>,
                        stderr := ''Error: Cannot allocate memory\<newline>''\<rparr>)"
proof -
  have h: "mallocs (w_init\<lparr>mallocs := [False]\<rparr>) = False # []"
    by (simp add: w_init_def)
  have run: "recurse_dir 2 tree_pf (opts_plain\<lparr>verbose := 0\<rparr>) ''r'' (w_init\<lparr>mallocs := [False]\<rparr>) =
       Some (0, w_init\<lparr>latest := \<lparr>path = Some (''r'' @ [CHR 0x5C] @ ''b'' @ [CHR 0x5C] @ ''c.txt''),
                                   time = 1717200000\<rparr>,
                        stderr := ''Error: Cannot allocate memory\<newline>''\<rparr>)"
    by (simp add: eval_nat_numeral tree_pf_def opts_plain_def w_init_def snprintf_path_def
        skip_by_date_def skip_by_pattern_def update_latest_file_def malloc_def
        effective_time_def print_searching_def printf_def fprintf_stderr_def Let_def)
  show ?thesis
    using h run allocation_failure_keeps_previous_best [OF h, of "''x''" 5 5, THEN conjunct1]
    by (simp add: w_init_def)
qed

text \<open>
  C7. A directory that cannot be opened makes \<^verbatim>\<open>recurse_dir\<close> print a message that names
  the path and return 1 at once, with nothing else changed. The caller drops the returned
  value: when the directory is an entry of a parent directory, the parent's loop goes on
  with the remaining entries. The exit status does not depend on it either: what \<^verbatim>\<open>main\<close>
  does after a walk that returns is the report on the accumulator, whatever value the walk
  returned, with the status 0 when the report returns; and a message on the error stream
  changes nothing in the report.
\<close>

theorem open_failure_is_local:
  assumes "opendir pf p = None"
  shows "recurse_dir (Suc n) pf options p w =
           Some (1, fprintf_stderr (''Error: Cannot open '' @ p @ ''\<newline>'') w)
     \<and> (d \<noteq> ''.'' \<and> d \<noteq> ''..'' \<and> snprintf_path 1024 dir d = p \<and> stat pf p = Some sb \<and> st_isdir sb
          \<and> skip_by_date pf options sb w = (False, w1) \<and> \<not> skip_by_pattern options d \<longrightarrow>
          readdir_loop (Suc n) pf options dir (d # rest) w =
            readdir_loop (Suc n) pf options dir rest
              (fprintf_stderr (''Error: Cannot open '' @ p @ ''\<newline>'')
                 (print_searching options p (update_latest_file w1 p (st_ctime sb) (st_mtime sb)))))
     \<and> (parse_options argv0 opts (w0\<lparr>latest := \<lparr>path = None, time = 0\<rparr>\<rparr>) = (2, options, w')
          \<and> basePath options = Some root \<and> recurse_dir fuel pf options root w' = Some (r, w2) \<longrightarrow>
          main fuel pf argv0 opts w0 =
            Some (case report pf w2 of Inl f \<Rightarrow> Inl f | Inr w3 \<Rightarrow> Inr (0, w3)))
     \<and> report pf (fprintf_stderr (''Error: Cannot open '' @ p @ ''\<newline>'') w2) =
           (case report pf w2 of
              Inl f \<Rightarrow> Inl f
            | Inr w3 \<Rightarrow> Inr (fprintf_stderr (''Error: Cannot open '' @ p @ ''\<newline>'') w3))"
proof (intro conjI impI)
  show "recurse_dir (Suc n) pf options p w =
           Some (1, fprintf_stderr (''Error: Cannot open '' @ p @ ''\<newline>'') w)"
    using assms by (rule recurse_dir_cannot_open)
next
  assume a: "d \<noteq> ''.'' \<and> d \<noteq> ''..'' \<and> snprintf_path 1024 dir d = p \<and> stat pf p = Some sb \<and> st_isdir sb
          \<and> skip_by_date pf options sb w = (False, w1) \<and> \<not> skip_by_pattern options d"
  have "readdir_loop (Suc n) pf options dir (d # rest) w =
      (case recurse_dir (Suc n) pf options p
              (print_searching options p (update_latest_file w1 p (st_ctime sb) (st_mtime sb))) of
         None \<Rightarrow> None
       | Some (r, w3) \<Rightarrow> readdir_loop (Suc n) pf options dir rest w3)"
    using a readdir_loop_candidate[of d pf dir sb options w w1 "Suc n" rest] by auto
  moreover have "recurse_dir (Suc n) pf options p
              (print_searching options p (update_latest_file w1 p (st_ctime sb) (st_mtime sb))) =
      Some (1, fprintf_stderr (''Error: Cannot open '' @ p @ ''\<newline>'')
                 (print_searching options p (update_latest_file w1 p (st_ctime sb) (st_mtime sb))))"
    using assms by (rule recurse_dir_cannot_open)
  ultimately show "readdir_loop (Suc n) pf options dir (d # rest) w =
            readdir_loop (Suc n) pf options dir rest
              (fprintf_stderr (''Error: Cannot open '' @ p @ ''\<newline>'')
                 (print_searching options p (update_latest_file w1 p (st_ctime sb) (st_mtime sb))))"
    by (simp only: option.case prod.case)
next
  assume "parse_options argv0 opts (w0\<lparr>latest := \<lparr>path = None, time = 0\<rparr>\<rparr>) = (2, options, w')
          \<and> basePath options = Some root \<and> recurse_dir fuel pf options root w' = Some (r, w2)"
  then show "main fuel pf argv0 opts w0 =
      Some (case report pf w2 of Inl f \<Rightarrow> Inl f | Inr w3 \<Rightarrow> Inr (0, w3))"
    using main_after_walk[of argv0 opts w0 options w' root fuel pf r w2] by blast
next
  show "report pf (fprintf_stderr (''Error: Cannot open '' @ p @ ''\<newline>'') w2) =
           (case report pf w2 of
              Inl f \<Rightarrow> Inl f
            | Inr w3 \<Rightarrow> Inr (fprintf_stderr (''Error: Cannot open '' @ p @ ''\<newline>'') w3))"
    by (rule report_stderr)
qed

text \<open>
  The run of the program on the root whose directory \<^verbatim>\<open>b\<close> cannot be opened: the message
  names \<^verbatim>\<open>r\b\<close>, the file \<^verbatim>\<open>z.txt\<close> that follows it is still found, and the exit status
  is 0.
\<close>

theorem open_failure_is_local_witness:
  "opendir locked_pf (''r'' @ [CHR 0x5C] @ ''b'') = None
   \<and> recurse_dir (Suc 0) locked_pf opts_plain (''r'' @ [CHR 0x5C] @ ''b'') w_init =
       Some (1, w_init\<lparr>stderr := ''Error: Cannot open r'' @ [CHR 0x5C] @ ''b\<newline>''\<rparr>)
   \<and> main 2 locked_pf ''prog'' [(CHR ''p'', ''r'')] w_init =
       Some (Inr (0, w_init\<lparr>latest := \<lparr>path = Some (''r'' @ [CHR 0x5C] @ ''z.txt''), time = 1717200000\<rparr>,
                        stdout := ''File: r'' @ [CHR 0x5C] @ ''z.txt Date: 2024-06-01 00:00:00\<newline>'',
                        stderr := ''Error: Cannot open r'' @ [CHR 0x5C] @ ''b\<newline>''\<rparr>))"
proof -
  have h: "opendir locked_pf (''r'' @ [CHR 0x5C] @ ''b'') = None"
    by (simp add: locked_pf_def)
  let ?o = "\<lparr>basePath = Some ''r'', beforeDate = None, excludePattern = None, verbose = 0\<rparr>"
  let ?w2 = "w_init\<lparr>latest := \<lparr>path = Some (''r'' @ [CHR 0x5C] @ ''z.txt''), time = 1717200000\<rparr>,
                    stderr := ''Error: Cannot open r'' @ [CHR 0x5C] @ ''b\<newline>''\<rparr>"
  have parse: "parse_options ''prog'' [(CHR ''p'', ''r'')] (w_init\<lparr>latest := \<lparr>path = None, time = 0\<rparr>\<rparr>)
      = (2, ?o, w_init)"
    by (simp add: parse_options_path_only w_init_def)
  have base: "basePath ?o = Some ''r''"
    by simp
  have walk: "recurse_dir 2 locked_pf ?o ''r'' w_init = Some (0, ?w2)"
    by (simp add: eval_nat_numeral locked_pf_def w_init_def snprintf_path_def
        skip_by_date_def skip_by_pattern_def update_latest_file_def malloc_def
        effective_time_def print_searching_def printf_def fprintf_stderr_def Let_def)
  have "report locked_pf ?w2 =
      Inr (?w2\<lparr>stdout := ''File: r'' @ [CHR 0x5C] @ ''z.txt Date: 2024-06-01 00:00:00\<newline>''\<rparr>)"
    by (simp add: report_def print_time_june locked_pf_def printf_def w_init_def)
  then have run: "main 2 locked_pf ''prog'' [(CHR ''p'', ''r'')] w_init =
       Some (Inr (0, w_init\<lparr>latest := \<lparr>path = Some (''r'' @ [CHR 0x5C] @ ''z.txt''), time = 1717200000\<rparr>,
                        stdout := ''File: r'' @ [CHR 0x5C] @ ''z.txt Date: 2024-06-01 00:00:00\<newline>'',
                        stderr := ''Error: Cannot open r'' @ [CHR 0x5C] @ ''b\<newline>''\<rparr>))"
    using main_after_walk[OF parse base walk] by (simp add: w_init_def)
  show ?thesis
    using h run open_failure_is_local [OF h, of 0 opts_plain w_init, THEN conjunct1]
    by (simp add: w_init_def fprintf_stderr_def)
qed

section \<open>Claim C2: directories and the filters\<close>

text \<open>
  C2, as stated, fails on the example tree. With the exclusion pattern \<^verbatim>\<open>b\<close> the walk
  visits the directory \<^verbatim>\<open>r\b\<close>, filters it out and does not enter it: nothing is printed
  in verbose mode, and the best match is \<^verbatim>\<open>a.txt\<close>. The file \<^verbatim>\<open>c.txt\<close> beneath it, whose
  name the pattern does not occur in and which is the best match of the walk without a
  pattern, is never seen.
\<close>

theorem filtered_directory_counterexample:
  "recurse_dir 2 tree_pf (opts_plain\<lparr>excludePattern := Some ''b''\<rparr>) ''r'' w_init =
     Some (0, w_init\<lparr>latest := \<lparr>path = Some (''r'' @ [CHR 0x5C] @ ''a.txt''), time = 1704067200\<rparr>\<rparr>)
   \<and> recurse_dir 2 tree_pf opts_plain ''r'' w_init =
     Some (0, w_init\<lparr>latest := \<lparr>path = Some (''r'' @ [CHR 0x5C] @ ''b'' @ [CHR 0x5C] @ ''c.txt''),
                                 time = 1717200000\<rparr>,
                      stdout := ''Searching r'' @ [CHR 0x5C] @ ''b'' @ [CHR 0x5C] @ ''\<newline>''\<rparr>)
   \<and> skip_by_pattern (opts_plain\<lparr>excludePattern := Some ''b''\<rparr>) ''c.txt'' = False"
  by (simp add: eval_nat_numeral tree_pf_def opts_plain_def w_init_def snprintf_path_def
      skip_by_date_def skip_by_pattern_def is_excluded_def update_latest_file_def malloc_def
      effective_time_def print_searching_def printf_def fprintf_stderr_def Let_def)

text \<open>
  C2, amended. For a visited entry that is a directory, the walker enters it exactly when
  neither the cutoff-date filter nor the exclusion filter removed the entry: a directory
  that a filter removed is passed over together with everything beneath it, and the loop
  goes on with the next entry of the parent; a directory that passed both filters is
  offered to the accumulator and then walked.
\<close>

theorem directory_entered_iff_unfiltered:
  assumes "d \<noteq> ''.''" and "d \<noteq> ''..''"
    and "stat pf (snprintf_path 1024 dir d) = Some sb" and "st_isdir sb"
    and "skip_by_date pf options sb w = (skipped, w1)"
  shows "readdir_loop n pf options dir (d # rest) w =
     (if skipped \<or> skip_by_pattern options d then readdir_loop n pf options dir rest w1
      else
        (case recurse_dir n pf options (snprintf_path 1024 dir d)
                (print_searching options (snprintf_path 1024 dir d)
                   (update_latest_file w1 (snprintf_path 1024 dir d) (st_ctime sb) (st_mtime sb))) of
           None \<Rightarrow> None
         | Some (r, w3) \<Rightarrow> readdir_loop n pf options dir rest w3))"
proof (cases "skipped \<or> skip_by_pattern options d")
  case True
  then show ?thesis
    using readdir_loop_filtered[OF assms(1,2,3,5), of n rest] by simp
next
  case False
  then have "skip_by_date pf options sb w = (False, w1)" and "\<not> skip_by_pattern options d"
    using assms(5) by simp_all
  then show ?thesis
    using readdir_loop_candidate[OF assms(1,2,3), of options w w1 n rest] assms(4) False
    by simp
qed

theorem directory_entered_iff_unfiltered_witness:
  "''b'' \<noteq> ''.'' \<and> ''b'' \<noteq> ''..''
   \<and> stat tree_pf (snprintf_path 1024 ''r'' ''b'') =
       Some \<lparr>st_isdir = True, st_ctime = 1714521600, st_mtime = 1714521600\<rparr>
   \<and> skip_by_date tree_pf (opts_plain\<lparr>excludePattern := Some ''b''\<rparr>)
        \<lparr>st_isdir = True, st_ctime = 1714521600, st_mtime = 1714521600\<rparr> w_init = (False, w_init)
   \<and> skip_by_pattern (opts_plain\<lparr>excludePattern := Some ''b''\<rparr>) ''b''
   \<and> readdir_loop 1 tree_pf (opts_plain\<lparr>excludePattern := Some ''b''\<rparr>) ''r'' [''b'', ''a.txt''] w_init =
       readdir_loop 1 tree_pf (opts_plain\<lparr>excludePattern := Some ''b''\<rparr>) ''r'' [''a.txt''] w_init"
proof -
  let ?sb = "\<lparr>st_isdir = True, st_ctime = 1714521600, st_mtime = 1714521600\<rparr>"
  let ?o = "opts_plain\<lparr>excludePattern := Some ''b''\<rparr>"
  have h1: "''b'' \<noteq> ''.''" and h2: "''b'' \<noteq> ''..''"
    by simp_all
  have h3: "stat tree_pf (snprintf_path 1024 ''r'' ''b'') = Some ?sb"
    by (simp add: tree_pf_def snprintf_path_def)
  have h4: "st_isdir ?sb"
    by simp
  have h5: "skip_by_date tree_pf ?o ?sb w_init = (False, w_init)"
    by (simp add: skip_by_date_def opts_plain_def)
  have h6: "skip_by_pattern ?o ''b''"
    by (simp add: skip_by_pattern_def is_excluded_def opts_plain_def)
  show ?thesis
    using h1 h2 h3 h5 h6 directory_entered_iff_unfiltered [OF h1 h2 h3 h4 h5, of 1 "[''a.txt'']"]
    by (simp only: simp_thms if_True)
qed

section \<open>Claims C10 and C5: the path of an entry\<close>

text \<open>
  C10. The path of an entry is written into the buffer of 1024 bytes by \<^verbatim>\<open>snprintf\<close>: it
  never has more than 1023 characters (the NUL is the 1024th byte). A joined path that
  is longer is cut to its first 1023 characters. Nothing rejects or reports this: the
  entry is looked up, offered to the accumulator and, when it is a directory, walked
  under the cut path, and no message is printed on its account.
\<close>

theorem path_buffer_truncates_silently:
  "length (snprintf_path 1024 dir d) \<le> 1023
   \<and> (1023 < length dir + 1 + length d \<longrightarrow>
        snprintf_path 1024 dir d = take 1023 (dir @ [CHR 0x5C] @ d)
        \<and> length (snprintf_path 1024 dir d) = 1023)
   \<and> (1023 < length dir + 1 + length d \<and> d \<noteq> ''.'' \<and> d \<noteq> ''..''
        \<and> stat pf (take 1023 (dir @ [CHR 0x5C] @ d)) = Some sb
        \<and> skip_by_date pf options sb w = (False, w1) \<and> \<not> skip_by_pattern options d \<longrightarrow>
        readdir_loop n pf options dir (d # rest) w =
          (if st_isdir sb then
             (case recurse_dir n pf options (take 1023 (dir @ [CHR 0x5C] @ d))
                     (print_searching options (take 1023 (dir @ [CHR 0x5C] @ d))
                        (update_latest_file w1 (take 1023 (dir @ [CHR 0x5C] @ d))
                           (st_ctime sb) (st_mtime sb))) of
                None \<Rightarrow> None
              | Some (r, w3) \<Rightarrow> readdir_loop n pf options dir rest w3)
           else readdir_loop n pf options dir rest
                  (update_latest_file w1 (take 1023 (dir @ [CHR 0x5C] @ d))
                     (st_ctime sb) (st_mtime sb))))"
proof (intro conjI impI)
  show "length (snprintf_path 1024 dir d) \<le> 1023"
    by (simp add: snprintf_path_def)
next
  assume "1023 < length dir + 1 + length d"
  then show "length (snprintf_path 1024 dir d) = 1023"
    by (simp add: snprintf_path_def)
next
  show "snprintf_path 1024 dir d = take 1023 (dir @ [CHR 0x5C] @ d)"
    by (simp add: snprintf_path_def)
next
  assume a: "1023 < length dir + 1 + length d \<and> d \<noteq> ''.'' \<and> d \<noteq> ''..''
        \<and> stat pf (take 1023 (dir @ [CHR 0x5C] @ d)) = Some sb
        \<and> skip_by_date pf options sb w = (False, w1) \<and> \<not> skip_by_pattern options d"
  have p: "snprintf_path 1024 dir d = take 1023 (dir @ [CHR 0x5C] @ d)"
    by (simp add: snprintf_path_def)
  show "readdir_loop n pf options dir (d # rest) w =
          (if st_isdir sb then
             (case recurse_dir n pf options (take 1023 (dir @ [CHR 0x5C] @ d))
                     (print_searching options (take 1023 (dir @ [CHR 0x5C] @ d))
                        (update_latest_file w1 (take 1023 (dir @ [CHR 0x5C] @ d))
                           (st_ctime sb) (st_mtime sb))) of
                None \<Rightarrow> None
              | Some (r, w3) \<Rightarrow> readdir_loop n pf options dir rest w3)
           else readdir_loop n pf options dir rest
                  (update_latest_file w1 (take 1023 (dir @ [CHR 0x5C] @ d))
                     (st_ctime sb) (st_mtime sb)))"
    using a readdir_loop_candidate[of d pf dir sb options w w1 n rest] unfolding p by blast
qed

text \<open>
  The directory of 1020 characters with the entry \<^verbatim>\<open>abcdef\<close>: the joined path would
  have 1027 characters; the walk records the entry under the first 1023 of them, which
  end in \<^verbatim>\<open>\ab\<close>, and prints nothing.
\<close>

theorem path_buffer_truncates_silently_witness:
  "1023 < length deep_dir + 1 + length ''abcdef''
   \<and> snprintf_path 1024 deep_dir ''abcdef'' = deep_dir @ [CHR 0x5C] @ ''ab''
   \<and> length (snprintf_path 1024 deep_dir ''abcdef'') = 1023
   \<and> recurse_dir 1 deep_pf opts_plain deep_dir w_init =
       Some (0, w_init\<lparr>latest := \<lparr>path = Some (deep_dir @ [CHR 0x5C] @ ''ab''), time = 1717200000\<rparr>\<rparr>)"
proof -
  have h: "1023 < length deep_dir + 1 + length ''abcdef''"
    by (simp add: deep_dir_def)
  have t: "take 1023 (deep_dir @ [CHR 0x5C] @ ''abcdef'') = deep_dir @ [CHR 0x5C] @ ''ab''"
    by (simp add: deep_dir_def)
  have p: "snprintf_path 1024 deep_dir ''abcdef'' = deep_dir @ [CHR 0x5C] @ ''ab''"
    unfolding snprintf_path_def using t by simp
  have run: "recurse_dir 1 deep_pf opts_plain deep_dir w_init =
       Some (0, w_init\<lparr>latest := \<lparr>path = Some (deep_dir @ [CHR 0x5C] @ ''ab''), time = 1717200000\<rparr>\<rparr>)"
    by (simp add: deep_pf_def opts_plain_def w_init_def p
        skip_by_date_def skip_by_pattern_def update_latest_file_def malloc_def effective_time_def)
  have c: "length (snprintf_path 1024 deep_dir ''abcdef'') = 1023"
    using path_buffer_truncates_silently
            [of deep_dir "''abcdef''", THEN conjunct2, THEN conjunct1, THEN mp, OF h]
    by (rule conjunct2)
  from h p c run show ?thesis
    by blast
qed

text \<open>
  C5, as stated, fails wherever the path separator of the platform is not the backslash:
  with the separator \<^verbatim>\<open>/\<close> the platform's join of \<^verbatim>\<open>r\<close> and \<^verbatim>\<open>a.txt\<close> is \<^verbatim>\<open>r/a.txt\<close>,
  and the walker builds \<^verbatim>\<open>r\a.txt\<close>.
\<close>

theorem platform_separator_counterexample:
  "snprintf_path 1024 ''r'' ''a.txt'' = ''r'' @ [CHR 0x5C] @ ''a.txt''
   \<and> spec_join_path (CHR ''/'') ''r'' ''a.txt'' = ''r/a.txt''
   \<and> snprintf_path 1024 ''r'' ''a.txt'' \<noteq> spec_join_path (CHR ''/'') ''r'' ''a.txt''"
  by (simp add: snprintf_path_def spec_join_path_def)

text \<open>
  C5, amended. For every visited entry the walker joins the parent path and the entry
  name with the backslash that is written in the format string, on every platform: as
  long as the result fits the buffer, the path it builds is the join with a separator
  exactly when that separator is the backslash. The loop looks the entry up under this
  path.
\<close>

theorem path_joined_with_backslash:
  assumes "length dir + 1 + length d \<le> 1023"
  shows "snprintf_path 1024 dir d = dir @ [CHR 0x5C] @ d
     \<and> (snprintf_path 1024 dir d = spec_join_path separator dir d) = (separator = CHR 0x5C)
     \<and> (d \<noteq> ''.'' \<and> d \<noteq> ''..'' \<and> stat pf (dir @ [CHR 0x5C] @ d) = None \<longrightarrow>
          readdir_loop n pf options dir (d # rest) w =
            readdir_loop n pf options dir rest
              (fprintf_stderr (''Error: Cannot get the file information of ''
                                 @ dir @ [CHR 0x5C] @ d @ ''\<newline>'') w))"
proof -
  have p: "snprintf_path 1024 dir d = dir @ [CHR 0x5C] @ d"
    using assms by (simp add: snprintf_path_def)
  have s: "(snprintf_path 1024 dir d = spec_join_path separator dir d) = (separator = CHR 0x5C)"
    unfolding p by (auto simp: spec_join_path_def)
  have l: "d \<noteq> ''.'' \<and> d \<noteq> ''..'' \<and> stat pf (dir @ [CHR 0x5C] @ d) = None \<longrightarrow>
          readdir_loop n pf options dir (d # rest) w =
            readdir_loop n pf options dir rest
              (fprintf_stderr (''Error: Cannot get the file information of ''
                                 @ dir @ [CHR 0x5C] @ d @ ''\<newline>'') w)"
    by (simp add: p)
  from p s l show ?thesis by blast
qed

theorem path_joined_with_backslash_witness:
  "length ''r'' + 1 + length ''a.txt'' \<le> 1023
   \<and> snprintf_path 1024 ''r'' ''a.txt'' = ''r'' @ [CHR 0x5C] @ ''a.txt''
   \<and> snprintf_path 1024 ''r'' ''a.txt'' \<noteq> spec_join_path (CHR ''/'') ''r'' ''a.txt''
   \<and> snprintf_path 1024 ''r'' ''a.txt'' = spec_join_path (CHR 0x5C) ''r'' ''a.txt''"
proof -
  have h: "length ''r'' + 1 + length ''a.txt'' \<le> 1023"
    by simp
  have a: "snprintf_path 1024 ''r'' ''a.txt'' = ''r'' @ [CHR 0x5C] @ ''a.txt''"
    using path_joined_with_backslash [OF h] by (rule conjunct1)
  have "(snprintf_path 1024 ''r'' ''a.txt'' = spec_join_path (CHR ''/'') ''r'' ''a.txt'')
      = (CHR ''/'' = CHR 0x5C)"
    using path_joined_with_backslash [OF h, THEN conjunct2] by (rule conjunct1)
  then have b: "snprintf_path 1024 ''r'' ''a.txt'' \<noteq> spec_join_path (CHR ''/'') ''r'' ''a.txt''"
    by simp
  have "(snprintf_path 1024 ''r'' ''a.txt'' = spec_join_path (CHR 0x5C) ''r'' ''a.txt'')
      = (CHR 0x5C = CHR 0x5C)"
    using path_joined_with_backslash [OF h, THEN conjunct2] by (rule conjunct1)
  then have c: "snprintf_path 1024 ''r'' ''a.txt'' = spec_join_path (CHR 0x5C) ''r'' ''a.txt''"
    by simp
  from h a b c show ?thesis
    by blast
qed


section \<open>Claim C9: the exclusion filter\<close>






section \<open>Claim C1: the cutoff-date filter\<close>

lemma is_after_date_parsed:
  "cutoff_time pf s = Some cutoff \<Longrightarrow>
   is_after_date pf t s w = ((if cutoff \<le> t then 1 else 0), w)"
  by (simp add: is_after_date_def)

lemma skip_by_date_parsed:
  "beforeDate options = Some s \<Longrightarrow> cutoff_time pf s = Some cutoff \<Longrightarrow>
   skip_by_date pf options sb w = (cutoff \<le> st_mtime sb, w)"
  by (simp add: skip_by_date_def is_after_date_parsed)

text \<open>
  C1. The code does not do what the claim says, and what its own comment on line 140 ("if
  the file is older than the cutoff date, skip it") and its usage text on line 48 say.
  With a cutoff configured, line 141 leaves the loop body for exactly the entries for
  which \<^verbatim>\<open>is_after_date\<close>, called on \<^verbatim>\<open>st_mtime\<close>, returns a non-zero value: such an entry
  is passed over, and an entry for which it returns 0 is offered to the accumulator (shown
  here for a file that the exclusion filter keeps). This holds whatever
  \<^verbatim>\<open>is_after_date\<close> computes. By its last line, the value is non-zero when the
  modification time is at or after the timestamp of the cutoff: the walker drops the
  entries modified at or after the cutoff and keeps the older ones, the inverse of the
  documented test, and it reads the modification time, not the effective time.
\<close>

theorem cutoff_filter_skips_when_after:
  assumes "beforeDate options = Some s"
    and "is_after_date pf (st_mtime sb) s w = (r, w1)"
    and "d \<noteq> ''.''" and "d \<noteq> ''..''"
    and "stat pf (snprintf_path 1024 dir d) = Some sb"
  shows "skip_by_date pf options sb w = (r \<noteq> 0, w1)
     \<and> (r \<noteq> 0 \<longrightarrow>
          readdir_loop n pf options dir (d # rest) w = readdir_loop n pf options dir rest w1)
     \<and> (r = 0 \<and> \<not> skip_by_pattern options d \<and> \<not> st_isdir sb \<longrightarrow>
          readdir_loop n pf options dir (d # rest) w =
            readdir_loop n pf options dir rest
              (update_latest_file w1 (snprintf_path 1024 dir d) (st_ctime sb) (st_mtime sb)))
     \<and> (cutoff_time pf s = Some cutoff \<longrightarrow> r = (if cutoff \<le> st_mtime sb then 1 else 0))"
proof (intro conjI impI)
  show sk: "skip_by_date pf options sb w = (r \<noteq> 0, w1)"
    using assms(1,2) by (simp add: skip_by_date_def)
  {
    assume "r \<noteq> 0"
    then show "readdir_loop n pf options dir (d # rest) w = readdir_loop n pf options dir rest w1"
      using readdir_loop_filtered[OF assms(3,4,5) sk, of n rest] by simp
  }
  {
    assume a: "r = 0 \<and> \<not> skip_by_pattern options d \<and> \<not> st_isdir sb"
    then have "skip_by_date pf options sb w = (False, w1)"
      using sk by simp
    then show "readdir_loop n pf options dir (d # rest) w =
            readdir_loop n pf options dir rest
              (update_latest_file w1 (snprintf_path 1024 dir d) (st_ctime sb) (st_mtime sb))"
      using a readdir_loop_candidate[OF assms(3,4,5), of options w w1 n rest] by simp
  }
  {
    assume "cutoff_time pf s = Some cutoff"
    then show "r = (if cutoff \<le> st_mtime sb then 1 else 0)"
      using assms(2) is_after_date_parsed[of pf s cutoff "st_mtime sb" w] by simp
  }
qed

text \<open>
  The run \<^verbatim>\<open>-p r -b 2024-03-01\<close> on the example tree, with the conversion yielding the
  midnight that begins 2024-03-01: \<^verbatim>\<open>a.txt\<close>, modified 2024-01-01, is kept and ends as the
  best match; the directory \<^verbatim>\<open>b\<close>, modified 2024-05-01, is passed over, and \<^verbatim>\<open>c.txt\<close> in
  it is never seen.
\<close>

theorem cutoff_filter_skips_when_after_witness:
  "beforeDate (opts_plain\<lparr>beforeDate := Some ''2024-03-01''\<rparr>) = Some ''2024-03-01''
   \<and> cutoff_time tree_pf ''2024-03-01'' = Some 1709251200
   \<and> stat tree_pf (snprintf_path 1024 ''r'' ''a.txt'') =
       Some \<lparr>st_isdir = False, st_ctime = 1704067200, st_mtime = 1704067200\<rparr>
   \<and> skip_by_date tree_pf (opts_plain\<lparr>beforeDate := Some ''2024-03-01''\<rparr>)
        \<lparr>st_isdir = False, st_ctime = 1704067200, st_mtime = 1704067200\<rparr> w_init = (False, w_init)
   \<and> stat tree_pf (snprintf_path 1024 ''r'' ''b'') =
       Some \<lparr>st_isdir = True, st_ctime = 1714521600, st_mtime = 1714521600\<rparr>
   \<and> skip_by_date tree_pf (opts_plain\<lparr>beforeDate := Some ''2024-03-01''\<rparr>)
        \<lparr>st_isdir = True, st_ctime = 1714521600, st_mtime = 1714521600\<rparr> w_init = (True, w_init)
   \<and> recurse_dir 2 tree_pf (opts_plain\<lparr>beforeDate := Some ''2024-03-01''\<rparr>) ''r'' w_init =
       Some (0, w_init\<lparr>latest := \<lparr>path = Some (''r'' @ [CHR 0x5C] @ ''a.txt''), time = 1704067200\<rparr>\<rparr>)"
proof -
  let ?o = "opts_plain\<lparr>beforeDate := Some ''2024-03-01''\<rparr>"
  let ?a = "\<lparr>st_isdir = False, st_ctime = 1704067200, st_mtime = 1704067200\<rparr>"
  let ?b = "\<lparr>st_isdir = True, st_ctime = 1714521600, st_mtime = 1714521600\<rparr>"
  have h1: "beforeDate ?o = Some ''2024-03-01''"
    by simp
  have h2: "cutoff_time tree_pf ''2024-03-01'' = Some 1709251200"
    by (simp add: tree_pf_def)
  have n1: "''a.txt'' \<noteq> ''.''" and n2: "''a.txt'' \<noteq> ''..''"
    and n3: "''b'' \<noteq> ''.''" and n4: "''b'' \<noteq> ''..''"
    by simp_all
  have sa: "stat tree_pf (snprintf_path 1024 ''r'' ''a.txt'') = Some ?a"
    by (simp add: tree_pf_def snprintf_path_def)
  have sb: "stat tree_pf (snprintf_path 1024 ''r'' ''b'') = Some ?b"
    by (simp add: tree_pf_def snprintf_path_def)
  have ia: "is_after_date tree_pf (st_mtime ?a) ''2024-03-01'' w_init = (0, w_init)"
    by (simp add: is_after_date_def tree_pf_def)
  have ib: "is_after_date tree_pf (st_mtime ?b) ''2024-03-01'' w_init = (1, w_init)"
    by (simp add: is_after_date_def tree_pf_def)
  have "skip_by_date tree_pf ?o ?a w_init = ((0::int) \<noteq> 0, w_init)"
    using cutoff_filter_skips_when_after [OF h1 ia n1 n2 sa] by (rule conjunct1)
  then have ka: "skip_by_date tree_pf ?o ?a w_init = (False, w_init)"
    by simp
  have "skip_by_date tree_pf ?o ?b w_init = ((1::int) \<noteq> 0, w_init)"
    using cutoff_filter_skips_when_after [OF h1 ib n3 n4 sb] by (rule conjunct1)
  then have kb: "skip_by_date tree_pf ?o ?b w_init = (True, w_init)"
    by simp
  have run: "recurse_dir 2 tree_pf ?o ''r'' w_init =
       Some (0, w_init\<lparr>latest := \<lparr>path = Some (''r'' @ [CHR 0x5C] @ ''a.txt''), time = 1704067200\<rparr>\<rparr>)"
    by (simp add: eval_nat_numeral tree_pf_def opts_plain_def w_init_def snprintf_path_def
        skip_by_date_def is_after_date_def skip_by_pattern_def update_latest_file_def malloc_def
        effective_time_def)
  from h1 h2 sa ka sb kb run show ?thesis
    by blast
qed

section \<open>Claims C4 and C6: the report and the exit status\<close>




text \<open>
  The report is not defined for every time: for the file whose times are 2 to the power
  62, \<^verbatim>\<open>localtime\<close> returns \<^verbatim>\<open>NULL\<close>, which \<^verbatim>\<open>print_time\<close> hands to \<^verbatim>\<open>strftime\<close>.
\<close>

lemma report_far_time_faults:
  "main 1 far_pf ''prog'' [(CHR ''p'', ''r'')] w_init = Some (Inl NullStructTm)"
  by (simp add: main_def report_def parse_options_def far_pf_def w_init_def snprintf_path_def
      skip_by_date_def skip_by_pattern_def update_latest_file_def malloc_def
      effective_time_def printf_def print_time_far)

text \<open>
  C6. The help flag: \<^verbatim>\<open>getopt\<close> returns \<^verbatim>\<open>'h'\<close>, \<^verbatim>\<open>parse_options\<close> prints the usage and
  returns 0, and \<^verbatim>\<open>main\<close> leaves through line 169, which returns 1 whatever
  \<^verbatim>\<open>parse_options\<close> returned. No walk is made.
\<close>

theorem help_flag_exit_status:
  "main fuel pf argv0 ((CHR ''h'', optarg) # rest) w0 =
     Some (Inr (1, print_usage argv0 (w0\<lparr>latest := \<lparr>path = None, time = 0\<rparr>\<rparr>)))"
  by (simp add: main_def parse_options_def)

end
